theory Spec2Isabelle
  imports Complex_Main "HOL-Library.Sublist"
begin

section \<open>The command line driver of sucrase (src/cli.ts)\<close>

text \<open>
  The driver is a sequence of calls into Node.js (\<^verbatim>\<open>mz/fs\<close>, \<^verbatim>\<open>path\<close>, \<^verbatim>\<open>glob\<close>,
  \<^verbatim>\<open>JSON\<close>, \<^verbatim>\<open>console\<close>, \<^verbatim>\<open>process\<close>) and into the transformer of \<^verbatim>\<open>./index\<close>.
  None of these is part of \<^verbatim>\<open>cli.ts\<close>: they are the fields of a record \<open>env\<close> and
  every function of the driver takes that record. The file system is a value of an
  arbitrary type \<open>'w\<close>; the driver threads it, together with the list of the calls it has
  made so far, through every step. A rejected promise, a thrown exception and
  \<^verbatim>\<open>process.exit\<close> are the left summand of the result.
\<close>

subsection \<open>Errors and JavaScript values\<close>

datatype error =
  TypeError
  | SyntaxError
  | SystemError string
  | TransformError string
  | Exit nat
  | OutOfFuel

text \<open>The value \<^verbatim>\<open>JSON.parse\<close> returns. An object keeps its members as a list of
  bindings, looked up by key: the first binding of a key is the member (for a document
  that repeats a key, the one JavaScript keeps).\<close>

datatype json =
  JNull
  | JBool bool
  | JNum rat
  | JStr string
  | JArr "json list"
  | JObj "(string \<times> json) list"

text \<open>The result of reading a property: \<^verbatim>\<open>undefined\<close> or a value.\<close>

datatype jsval = Undefined | Val json

text \<open>\<^verbatim>\<open>v.k\<close> for the keys the driver reads (\<^verbatim>\<open>files\<close>, \<^verbatim>\<open>include\<close>,
  \<^verbatim>\<open>compilerOptions\<close>, \<^verbatim>\<open>outDir\<close>, \<^verbatim>\<open>esModuleInterop\<close>, \<^verbatim>\<open>module\<close>): reading a
  property of \<^verbatim>\<open>undefined\<close> or \<^verbatim>\<open>null\<close> throws a TypeError, an object answers with its
  member, and numbers, booleans, strings and arrays have no property of these names.\<close>

fun get_property :: "jsval \<Rightarrow> string \<Rightarrow> error + jsval" where
  "get_property Undefined k = Inl TypeError"
| "get_property (Val JNull) k = Inl TypeError"
| "get_property (Val (JObj members)) k =
     Inr (case map_of members k of None \<Rightarrow> Undefined | Some v \<Rightarrow> Val v)"
| "get_property (Val v) k = Inr Undefined"

text \<open>Truthiness, as \<^verbatim>\<open>if (v)\<close> reads a value.\<close>

fun truthy :: "jsval \<Rightarrow> bool" where
  "truthy Undefined = False"
| "truthy (Val JNull) = False"
| "truthy (Val (JBool b)) = b"
| "truthy (Val (JNum n)) = (n \<noteq> 0)"
| "truthy (Val (JStr s)) = (s \<noteq> [])"
| "truthy (Val (JArr xs)) = True"
| "truthy (Val (JObj members)) = True"

text \<open>A field of type \<^verbatim>\<open>string\<close> that commander may leave \<^verbatim>\<open>undefined\<close>: it is truthy
  when it is a string that is not empty.\<close>

fun truthy_str :: "string option \<Rightarrow> bool" where
  "truthy_str None = False"
| "truthy_str (Some s) = (s \<noteq> [])"

text \<open>\<^verbatim>\<open>for (const x of v)\<close>: an array yields its elements, a string its characters,
  and nothing else that \<^verbatim>\<open>JSON.parse\<close> returns is iterable.\<close>

fun iterate :: "json \<Rightarrow> error + json list" where
  "iterate (JArr xs) = Inr xs"
| "iterate (JStr s) = Inr (map (\<lambda>c. JStr [c]) s)"
| "iterate v = Inl TypeError"

subsection \<open>Strings\<close>

definition endsWith :: "string \<Rightarrow> string \<Rightarrow> bool" where
  "endsWith s suf = suffix suf s"

text \<open>\<^verbatim>\<open>s.split(",")\<close>.\<close>

fun split_comma :: "string \<Rightarrow> string list" where
  "split_comma [] = [[]]"
| "split_comma (c # cs) =
     (if c = CHR '','' then [] # split_comma cs
      else (case split_comma cs of [] \<Rightarrow> [[c]] | w # ws \<Rightarrow> (c # w) # ws))"

text \<open>The class \<^verbatim>\<open>\w\<close> of a regular expression without flags: \<^verbatim>\<open>[A-Za-z0-9_]\<close>.\<close>

definition word_char :: "char \<Rightarrow> bool" where
  "word_char c =
     (let n = (of_char c :: nat)
      in (48 \<le> n \<and> n \<le> 57) \<or> (65 \<le> n \<and> n \<le> 90) \<or> n = 95 \<or> (97 \<le> n \<and> n \<le> 122))"

text \<open>The whole of \<open>s\<close> is a dot followed by one or more word characters: what
  \<^verbatim>\<open>/\.\w+$/\<close> matches when the match starts at the first character of \<open>s\<close>.\<close>

definition ext_match :: "string \<Rightarrow> bool" where
  "ext_match s =
     (case s of [] \<Rightarrow> False | c # w \<Rightarrow> c = CHR ''.'' \<and> w \<noteq> [] \<and> list_all word_char w)"

text \<open>The leftmost match of \<^verbatim>\<open>/\.\w+$/\<close> in \<open>s\<close>: the text before it and the match.\<close>

fun search_ext :: "string \<Rightarrow> (string \<times> string) option" where
  "search_ext [] = None"
| "search_ext (c # cs) =
     (if ext_match (c # cs) then Some ([], c # cs)
      else map_option (\<lambda>(pre, m). (c # pre, m)) (search_ext cs))"

text \<open>The replacement text of \<^verbatim>\<open>String.prototype.replace\<close> for a pattern without
  capture groups: \<^verbatim>\<open>$$\<close> is a dollar, \<^verbatim>\<open>$&\<close> the match, \<^verbatim>\<open>$`\<close> the text before the
  match, \<^verbatim>\<open>$'\<close> the text after it, and every other character stands for itself.\<close>

fun get_substitution :: "string \<Rightarrow> string \<Rightarrow> string \<Rightarrow> string \<Rightarrow> string" where
  "get_substitution m pre post [] = []"
| "get_substitution m pre post [c] = [c]"
| "get_substitution m pre post (c # d # r) =
     (if c = CHR ''$'' then
        (if d = CHR ''$'' then CHR ''$'' # get_substitution m pre post r
         else if d = CHR ''&'' then m @ get_substitution m pre post r
         else if d = CHR 0x60 then pre @ get_substitution m pre post r
         else if d = CHR 0x27 then post @ get_substitution m pre post r
         else c # get_substitution m pre post (d # r))
      else c # get_substitution m pre post (d # r))"

text \<open>PathMapper: \<^verbatim>\<open>path.replace(/\.\w+$/, `.${outExtension}`)\<close>.\<close>

definition replace_ext :: "string \<Rightarrow> string \<Rightarrow> string" where
  "replace_ext path outExt =
     (case search_ext path of
        None \<Rightarrow> path
      | Some (pre, m) \<Rightarrow> pre @ get_substitution m pre [] (CHR ''.'' # outExt))"

subsection \<open>Options and file pairs\<close>

text \<open>The options of the transformer that the driver sets (\<^verbatim>\<open>Options\<close> of
  \<^verbatim>\<open>./index\<close>). A flag that commander leaves \<^verbatim>\<open>undefined\<close> is \<open>None\<close>.\<close>

record Options =
  transforms :: "string list"
  enableLegacyTypeScriptModuleInterop :: "bool option"
  enableLegacyBabel5ModuleInterop :: "bool option"
  jsxPragma :: string
  jsxFragmentPragma :: string
  production :: "bool option"

record CLIOptions =
  outDirPath :: "string option"
  srcDirPath :: "string option"
  project :: "string option"
  outExtension :: string
  excludeDirs :: "string list"
  quiet :: "bool option"
  sucraseOptions :: Options

record FileInfo =
  srcPath :: string
  outPath :: string

subsection \<open>The environment and the calls made into it\<close>

record 'w env =
  exists :: "'w \<Rightarrow> string \<Rightarrow> bool"
  mkdir :: "'w \<Rightarrow> string \<Rightarrow> error + 'w"
  readdir :: "'w \<Rightarrow> string \<Rightarrow> error + string list"
  stat_isDirectory :: "'w \<Rightarrow> string \<Rightarrow> error + bool"
  readFile :: "'w \<Rightarrow> string \<Rightarrow> error + string"
  writeFile :: "'w \<Rightarrow> string \<Rightarrow> string \<Rightarrow> error + 'w"
  glob :: "'w \<Rightarrow> string \<Rightarrow> error + string list"
  join :: "string list \<Rightarrow> string"
  dirname :: "string \<Rightarrow> string"
  relative :: "string \<Rightarrow> string \<Rightarrow> string"
  process_cwd :: string
  JSON_parse :: "string \<Rightarrow> error + json"
  transform :: "string \<Rightarrow> Options \<Rightarrow> string \<Rightarrow> error + string"

text \<open>One entry per call, with its arguments: the file system calls, the transformer
  (source path), and the two console streams.\<close>

datatype call =
  Exists string
  | Mkdir string
  | Readdir string
  | Stat string
  | ReadFile string
  | WriteFile string string
  | Glob string
  | Transform string
  | ConsoleLog string
  | ConsoleError string
  | ConsoleErrorObj error

record 'w state =
  world :: 'w
  trace :: "call list"

type_synonym ('w, 'a) io = "'w state \<Rightarrow> (error + 'a) \<times> 'w state"

definition logged :: "call \<Rightarrow> 'w state \<Rightarrow> 'w state" where
  "logged c st = st\<lparr>trace := trace st @ [c]\<rparr>"

definition and_then :: "('w, 'a) io \<Rightarrow> ('a \<Rightarrow> ('w, 'b) io) \<Rightarrow> ('w, 'b) io" where
  "and_then m f st = (case m st of (Inl e, st') \<Rightarrow> (Inl e, st') | (Inr x, st') \<Rightarrow> f x st')"

definition call_exists :: "'w env \<Rightarrow> string \<Rightarrow> ('w, bool) io" where
  "call_exists env p st = (Inr (exists env (world st) p), logged (Exists p) st)"

definition call_mkdir :: "'w env \<Rightarrow> string \<Rightarrow> ('w, unit) io" where
  "call_mkdir env p st =
     (case mkdir env (world st) p of
        Inl e \<Rightarrow> (Inl e, logged (Mkdir p) st)
      | Inr w \<Rightarrow> (Inr (), logged (Mkdir p) (st\<lparr>world := w\<rparr>)))"

definition call_readdir :: "'w env \<Rightarrow> string \<Rightarrow> ('w, string list) io" where
  "call_readdir env p st = (readdir env (world st) p, logged (Readdir p) st)"

definition call_stat :: "'w env \<Rightarrow> string \<Rightarrow> ('w, bool) io" where
  "call_stat env p st = (stat_isDirectory env (world st) p, logged (Stat p) st)"

definition call_readFile :: "'w env \<Rightarrow> string \<Rightarrow> ('w, string) io" where
  "call_readFile env p st = (readFile env (world st) p, logged (ReadFile p) st)"

definition call_writeFile :: "'w env \<Rightarrow> string \<Rightarrow> string \<Rightarrow> ('w, unit) io" where
  "call_writeFile env p content st =
     (case writeFile env (world st) p content of
        Inl e \<Rightarrow> (Inl e, logged (WriteFile p content) st)
      | Inr w \<Rightarrow> (Inr (), logged (WriteFile p content) (st\<lparr>world := w\<rparr>)))"

definition call_glob :: "'w env \<Rightarrow> string \<Rightarrow> ('w, string list) io" where
  "call_glob env p st = (glob env (world st) p, logged (Glob p) st)"

definition call_transform :: "'w env \<Rightarrow> string \<Rightarrow> Options \<Rightarrow> string \<Rightarrow> ('w, string) io" where
  "call_transform env code opts filePath st =
     (transform env code opts filePath, logged (Transform filePath) st)"

text \<open>\<^verbatim>\<open>if (!(await exists(p))) { await mkdir(p); }\<close>\<close>

definition ensure_dir :: "'w env \<Rightarrow> string \<Rightarrow> ('w, unit) io" where
  "ensure_dir env p =
     and_then (call_exists env p) (\<lambda>found st. if found then (Inr (), st) else call_mkdir env p st)"

subsection \<open>buildFile and the loop of buildDirectory over the file pairs\<close>

definition buildFile :: "'w env \<Rightarrow> string \<Rightarrow> string \<Rightarrow> CLIOptions \<Rightarrow> ('w, unit) io" where
  "buildFile env src out options st =
     and_then (call_readFile env src) (\<lambda>code.
     and_then (call_transform env code (sucraseOptions options) src) (\<lambda>transformedCode.
     call_writeFile env out transformedCode))
       (if quiet options \<noteq> Some True
        then logged (ConsoleLog (src @ '' -> '' @ out)) st else st)"

text \<open>\<^verbatim>\<open>for (const file of files) { await buildFile(file.srcPath, file.outPath, options); }\<close>\<close>

fun buildFiles :: "'w env \<Rightarrow> CLIOptions \<Rightarrow> FileInfo list \<Rightarrow> ('w, unit) io" where
  "buildFiles env options [] st = (Inr (), st)"
| "buildFiles env options (file # rest) st =
     and_then (buildFile env (srcPath file) (outPath file) options)
       (\<lambda>_. buildFiles env options rest) st"

subsection \<open>findFiles\<close>

text \<open>The recursion of \<^verbatim>\<open>findFiles\<close> follows the directories it finds while it creates
  others, so nothing bounds its depth: the first argument is the number of nested calls
  allowed, and a call beyond it is the error \<open>OutOfFuel\<close>. \<open>findFiles_loop\<close> is the
  \<^verbatim>\<open>for\<close> loop over the children, with \<^verbatim>\<open>outArr\<close> as its accumulator. The type of
  \<^verbatim>\<open>CLIOptions\<close> promises two strings; \<^verbatim>\<open>buildDirectory\<close> calls \<^verbatim>\<open>findFiles\<close> only when
  both are there.\<close>

fun findFiles :: "nat \<Rightarrow> 'w env \<Rightarrow> CLIOptions \<Rightarrow> ('w, FileInfo list) io"
  and findFiles_loop ::
    "nat \<Rightarrow> 'w env \<Rightarrow> CLIOptions \<Rightarrow> string \<Rightarrow> string \<Rightarrow> string list \<Rightarrow> string list
       \<Rightarrow> FileInfo list \<Rightarrow> ('w, FileInfo list) io" where
  "findFiles 0 env options st = (Inl OutOfFuel, st)"
| "findFiles (Suc n) env options st =
     (case (outDirPath options, srcDirPath options) of
        (Some outDir, Some srcDir) \<Rightarrow>
          (let extensions =
                 (if ''typescript'' \<in> set (transforms (sucraseOptions options))
                  then [''.ts'', ''.tsx''] else [''.js'', ''.jsx''])
           in case ensure_dir env outDir st of
                (Inl e, st1) \<Rightarrow> (Inl e, st1)
              | (Inr u, st1) \<Rightarrow>
                  (case call_readdir env srcDir st1 of
                     (Inl e, st2) \<Rightarrow> (Inl e, st2)
                   | (Inr children, st2) \<Rightarrow>
                       findFiles_loop n env options srcDir outDir extensions children [] st2))
      | _ \<Rightarrow> (Inl TypeError, st))"
| "findFiles_loop n env options srcDir outDir extensions [] outArr st = (Inr outArr, st)"
| "findFiles_loop n env options srcDir outDir extensions (child # rest) outArr st =
     (if child \<in> set [''node_modules'', ''.git''] \<or> child \<in> set (excludeDirs options)
      then findFiles_loop n env options srcDir outDir extensions rest outArr st
      else
        (let srcChildPath = join env [srcDir, child];
             outChildPath = join env [outDir, child]
         in case call_stat env srcChildPath st of
              (Inl e, st1) \<Rightarrow> (Inl e, st1)
            | (Inr isDir, st1) \<Rightarrow>
                if isDir then
                  (case findFiles n env
                          (options\<lparr>srcDirPath := Some srcChildPath, outDirPath := Some outChildPath\<rparr>)
                          st1 of
                     (Inl e, st2) \<Rightarrow> (Inl e, st2)
                   | (Inr innerFiles, st2) \<Rightarrow>
                       findFiles_loop n env options srcDir outDir extensions rest
                         (outArr @ innerFiles) st2)
                else if list_ex (\<lambda>ext. endsWith srcChildPath ext) extensions then
                  findFiles_loop n env options srcDir outDir extensions rest
                    (outArr @ [\<lparr>srcPath = srcChildPath,
                                outPath = replace_ext outChildPath (outExtension options)\<rparr>]) st1
                else findFiles_loop n env options srcDir outDir extensions rest outArr st1))"

subsection \<open>The project manifest\<close>

text \<open>Both \<^verbatim>\<open>runGlob\<close> and \<^verbatim>\<open>updateOptionsFromProject\<close> start by reading
  \<^verbatim>\<open>tsconfig.json\<close> of the project: when the read fails they print three lines on the
  error stream and call \<^verbatim>\<open>process.exit(1)\<close>.\<close>

definition read_tsconfig :: "'w env \<Rightarrow> string \<Rightarrow> ('w, string) io" where
  "read_tsconfig env proj st =
     (let tsConfigPath = join env [proj, ''tsconfig.json'']
      in case call_readFile env tsConfigPath st of
           (Inl err, st1) \<Rightarrow>
             (Inl (Exit 1),
              logged (ConsoleErrorObj err)
                (logged (ConsoleError (''  --project='' @ proj))
                  (logged (ConsoleError ''Could not find project tsconfig.json'') st1)))
         | (Inr str, st1) \<Rightarrow> (Inr str, st1))"

definition of_result :: "error + 'a \<Rightarrow> ('w, 'a) io" where
  "of_result r st = (r, st)"

text \<open>\<^verbatim>\<open>if (!xs.includes(x)) { xs.push(x); }\<close>\<close>

definition push_if_missing :: "string \<Rightarrow> string list \<Rightarrow> string list" where
  "push_if_missing x xs = (if x \<in> set xs then xs else xs @ [x])"

subsection \<open>updateOptionsFromProject\<close>

text \<open>The function changes its argument in place, also when it throws after the first
  change: the record it leaves behind is the second component of the result.\<close>

definition updateOptionsFromProject ::
    "'w env \<Rightarrow> CLIOptions \<Rightarrow> 'w state \<Rightarrow> (error + unit) \<times> CLIOptions \<times> 'w state" where
  "updateOptionsFromProject env options st =
     (case project options of
        None \<Rightarrow> (Inl TypeError, options, st)
      | Some proj \<Rightarrow>
     (case read_tsconfig env proj st of
        (Inl e, st1) \<Rightarrow> (Inl e, options, st1)
      | (Inr str, st1) \<Rightarrow>
     (case JSON_parse env str of
        Inl e \<Rightarrow> (Inl e, options, st1)
      | Inr json \<Rightarrow>
     (let options1 = options\<lparr>sucraseOptions := (sucraseOptions options)
            \<lparr>transforms := push_if_missing ''typescript'' (transforms (sucraseOptions options))\<rparr>\<rparr>
      in
     (case get_property (Val json) ''compilerOptions'' of
        Inl e \<Rightarrow> (Inl e, options1, st1)
      | Inr compilerOpts \<Rightarrow>
     (case get_property compilerOpts ''outDir'' of
        Inl e \<Rightarrow> (Inl e, options1, st1)
      | Inr outDir \<Rightarrow>
     (case (if truthy outDir then
              (case outDir of
                 Val (JStr d) \<Rightarrow>
                   Inr (options1\<lparr>outDirPath := Some (join env [process_cwd env, proj, d])\<rparr>)
               | _ \<Rightarrow> Inl TypeError)
            else Inr options1) of
        Inl e \<Rightarrow> (Inl e, options1, st1)
      | Inr options2 \<Rightarrow>
     (case get_property compilerOpts ''esModuleInterop'' of
        Inl e \<Rightarrow> (Inl e, options2, st1)
      | Inr esModuleInterop \<Rightarrow>
     (let options3 =
            (if esModuleInterop \<noteq> Val (JBool True)
             then options2\<lparr>sucraseOptions := (sucraseOptions options2)
                    \<lparr>enableLegacyTypeScriptModuleInterop := Some True\<rparr>\<rparr>
             else options2)
      in
     (case get_property compilerOpts ''module'' of
        Inl e \<Rightarrow> (Inl e, options3, st1)
      | Inr moduleOpt \<Rightarrow>
          (Inr (),
           (if moduleOpt = Val (JStr ''commonjs'')
            then options3\<lparr>sucraseOptions := (sucraseOptions options3)
                   \<lparr>transforms := push_if_missing ''imports'' (transforms (sucraseOptions options3))\<rparr>\<rparr>
            else options3),
           st1)))))))))))"

subsection \<open>runGlob\<close>

text \<open>\<^verbatim>\<open>if (!outDirs.includes(outDir)) { outDirs.push(outDir); }\<close> is
  \<open>push_if_missing outDir outDirs\<close>. The three loops of \<^verbatim>\<open>runGlob\<close> carry the pair
  \<open>(outDirs, foundFiles)\<close>. An entry of \<^verbatim>\<open>files\<close> or \<^verbatim>\<open>include\<close> that is not a string has
  no method \<^verbatim>\<open>endsWith\<close> and is no argument for \<^verbatim>\<open>join\<close>: a TypeError.\<close>

fun runGlob_files ::
    "'w env \<Rightarrow> string \<Rightarrow> string \<Rightarrow> string \<Rightarrow> json list \<Rightarrow> string list \<times> FileInfo list
       \<Rightarrow> error + string list \<times> FileInfo list" where
  "runGlob_files env absProject outDirP outExt [] acc = Inr acc"
| "runGlob_files env absProject outDirP outExt (f # rest) (outDirs, foundFiles) =
     (case f of
        JStr file \<Rightarrow>
          if endsWith file ''.d.ts'' then
            runGlob_files env absProject outDirP outExt rest (outDirs, foundFiles)
          else if \<not> endsWith file ''.ts'' \<and> \<not> endsWith file ''.js'' then
            runGlob_files env absProject outDirP outExt rest (outDirs, foundFiles)
          else
            (let srcFile = join env [absProject, file];
                 outFile = join env [outDirP, file];
                 outP = replace_ext outFile outExt;
                 outDir = dirname env outP
             in runGlob_files env absProject outDirP outExt rest
                  (push_if_missing outDir outDirs,
                   foundFiles @ [\<lparr>srcPath = srcFile, outPath = outP\<rparr>]))
      | _ \<Rightarrow> Inl TypeError)"

fun runGlob_matches ::
    "'w env \<Rightarrow> string \<Rightarrow> string \<Rightarrow> string \<Rightarrow> string list \<Rightarrow> string list \<times> FileInfo list
       \<Rightarrow> string list \<times> FileInfo list" where
  "runGlob_matches env absProject outDirP outExt [] acc = acc"
| "runGlob_matches env absProject outDirP outExt (file # rest) (outDirs, foundFiles) =
     (if \<not> endsWith file ''.ts'' \<and> \<not> endsWith file ''.js'' then
        runGlob_matches env absProject outDirP outExt rest (outDirs, foundFiles)
      else if endsWith file ''.d.ts'' then
        runGlob_matches env absProject outDirP outExt rest (outDirs, foundFiles)
      else
        (let relativeFile = relative env absProject file;
             outFile = join env [outDirP, relativeFile];
             outP = replace_ext outFile outExt;
             outDir = dirname env outP
         in runGlob_matches env absProject outDirP outExt rest
              (push_if_missing outDir outDirs,
               foundFiles @ [\<lparr>srcPath = file, outPath = outP\<rparr>])))"

fun runGlob_include ::
    "'w env \<Rightarrow> string \<Rightarrow> string \<Rightarrow> string \<Rightarrow> json list \<Rightarrow> string list \<times> FileInfo list
       \<Rightarrow> ('w, string list \<times> FileInfo list) io" where
  "runGlob_include env absProject outDirP outExt [] acc st = (Inr acc, st)"
| "runGlob_include env absProject outDirP outExt (p # rest) acc st =
     (case p of
        JStr pattern \<Rightarrow>
          (case call_glob env (join env [absProject, pattern]) st of
             (Inl e, st1) \<Rightarrow> (Inl e, st1)
           | (Inr globFiles, st1) \<Rightarrow>
               runGlob_include env absProject outDirP outExt rest
                 (runGlob_matches env absProject outDirP outExt globFiles acc) st1)
      | _ \<Rightarrow> (Inl TypeError, st))"

fun runGlob_mkdirs :: "'w env \<Rightarrow> string list \<Rightarrow> ('w, unit) io" where
  "runGlob_mkdirs env [] st = (Inr (), st)"
| "runGlob_mkdirs env (outDirP # rest) st =
     and_then (ensure_dir env outDirP) (\<lambda>_. runGlob_mkdirs env rest) st"

text \<open>\<^verbatim>\<open>if (v) { for (const x of v) ... }\<close>: the elements the loop runs over.\<close>

definition loop_items :: "jsval \<Rightarrow> error + json list" where
  "loop_items v =
     (if truthy v then (case v of Val j \<Rightarrow> iterate j | Undefined \<Rightarrow> Inr []) else Inr [])"

text \<open>\<^verbatim>\<open>options.outDirPath\<close> is \<^verbatim>\<open>undefined\<close> when neither the command line nor the
  manifest gave an output directory; \<^verbatim>\<open>exists(undefined)\<close> is rejected with a TypeError
  before any system call (the argument of \<^verbatim>\<open>fs.stat\<close> is not a path).\<close>

definition runGlob :: "'w env \<Rightarrow> CLIOptions \<Rightarrow> ('w, FileInfo list) io" where
  "runGlob env options st =
     (case project options of
        None \<Rightarrow> (Inl TypeError, st)
      | Some proj \<Rightarrow>
          and_then (read_tsconfig env proj) (\<lambda>str.
          and_then (of_result (JSON_parse env str)) (\<lambda>json.
          and_then (of_result (get_property (Val json) ''files'')) (\<lambda>files.
          and_then (of_result (get_property (Val json) ''include'')) (\<lambda>incl.
            (let absProject = join env [process_cwd env, proj]
             in case outDirPath options of
                  None \<Rightarrow> of_result (Inl TypeError)
                | Some outDirP \<Rightarrow>
                    and_then (ensure_dir env outDirP) (\<lambda>_.
                    and_then (of_result (loop_items files)) (\<lambda>fileItems.
                    and_then (of_result
                        (runGlob_files env absProject outDirP (outExtension options)
                           fileItems ([], []))) (\<lambda>acc.
                    and_then (of_result (loop_items incl)) (\<lambda>patterns.
                    and_then (runGlob_include env absProject outDirP (outExtension options)
                        patterns acc) (\<lambda>(outDirs, foundFiles).
                    and_then (runGlob_mkdirs env outDirs) (\<lambda>_.
                      of_result (Inr foundFiles)))))))))))) st)"

subsection \<open>buildDirectory\<close>

definition buildDirectory :: "nat \<Rightarrow> 'w env \<Rightarrow> CLIOptions \<Rightarrow> ('w, unit) io" where
  "buildDirectory fuel env options st =
     (if truthy_str (outDirPath options) \<and> truthy_str (srcDirPath options) then
        and_then (findFiles fuel env options) (buildFiles env options) st
      else if truthy_str (project options) then
        (case updateOptionsFromProject env options st of
           (Inl e, options', st1) \<Rightarrow> (Inl e, st1)
         | (Inr u, options', st1) \<Rightarrow>
             and_then (runGlob env options') (buildFiles env options') st1)
      else (Inl (Exit 1), logged (ConsoleError ''Project or Source directory required.'') st))"

subsection \<open>run\<close>

text \<open>What commander has parsed from the command line: an option that was not given is
  \<^verbatim>\<open>undefined\<close>, \<^verbatim>\<open>--out-extension\<close> has the default \<^verbatim>\<open>js\<close>, a flag is \<^verbatim>\<open>true\<close> or
  \<^verbatim>\<open>undefined\<close>.\<close>

record commander =
  cmd_outDir :: "string option"
  cmd_project :: "string option"
  cmd_outExtension :: string
  cmd_excludeDirs :: "string option"
  cmd_transforms :: "string option"
  cmd_quiet :: "bool option"
  cmd_enableLegacyTypescriptModuleInterop :: "bool option"
  cmd_enableLegacyBabel5ModuleInterop :: "bool option"
  cmd_jsxPragma :: "string option"
  cmd_jsxFragmentPragma :: "string option"
  cmd_production :: "bool option"
  cmd_args :: "string list"

definition cli_options :: "commander \<Rightarrow> CLIOptions" where
  "cli_options cmd =
     \<lparr>outDirPath = cmd_outDir cmd,
      srcDirPath = (case cmd_args cmd of [] \<Rightarrow> None | a # _ \<Rightarrow> Some a),
      project = cmd_project cmd,
      outExtension = cmd_outExtension cmd,
      excludeDirs =
        (if truthy_str (cmd_excludeDirs cmd) then split_comma (the (cmd_excludeDirs cmd)) else []),
      quiet = cmd_quiet cmd,
      sucraseOptions =
        \<lparr>transforms =
           (if truthy_str (cmd_transforms cmd) then split_comma (the (cmd_transforms cmd)) else []),
         enableLegacyTypeScriptModuleInterop = cmd_enableLegacyTypescriptModuleInterop cmd,
         enableLegacyBabel5ModuleInterop = cmd_enableLegacyBabel5ModuleInterop cmd,
         jsxPragma =
           (if truthy_str (cmd_jsxPragma cmd) then the (cmd_jsxPragma cmd)
            else ''React.createElement''),
         jsxFragmentPragma =
           (if truthy_str (cmd_jsxFragmentPragma cmd) then the (cmd_jsxFragmentPragma cmd)
            else ''React.Fragment''),
         production = cmd_production cmd\<rparr>\<rparr>"

text \<open>The result of \<open>run\<close> is the exit status of the process: \<^verbatim>\<open>process.exit(1)\<close> ends
  it at once, a rejected \<^verbatim>\<open>buildDirectory\<close> is printed and sets \<^verbatim>\<open>process.exitCode\<close>.\<close>

definition run :: "nat \<Rightarrow> 'w env \<Rightarrow> commander \<Rightarrow> 'w state \<Rightarrow> (error + nat) \<times> 'w state" where
  "run fuel env cmd st =
     (let arg0 = (case cmd_args cmd of [] \<Rightarrow> None | a # _ \<Rightarrow> Some a)
      in
      if truthy_str (cmd_project cmd) then
        (if truthy_str (cmd_outDir cmd) \<or> truthy_str (cmd_transforms cmd) \<or> truthy_str arg0
             \<or> cmd_enableLegacyTypescriptModuleInterop cmd = Some True
         then (Inr 1, logged (ConsoleError
                (''If TypeScript project is specified, out directory, transforms, source '' @
                 ''directory, and --enable-legacy-typescript-module-interop may not be specified.''))
                st)
         else
           (case buildDirectory fuel env (cli_options cmd) st of
              (Inr u, st') \<Rightarrow> (Inr 0, st')
            | (Inl (Exit n), st') \<Rightarrow> (Inr n, st')
            | (Inl OutOfFuel, st') \<Rightarrow> (Inl OutOfFuel, st')
            | (Inl e, st') \<Rightarrow> (Inr 1, logged (ConsoleErrorObj e) st')))
      else if \<not> truthy_str (cmd_outDir cmd) then
        (Inr 1, logged (ConsoleError ''Out directory is required'') st)
      else if \<not> truthy_str (cmd_transforms cmd) then
        (Inr 1, logged (ConsoleError ''Transforms option is required.'') st)
      else if \<not> truthy_str arg0 then
        (Inr 1, logged (ConsoleError ''Source directory is required.'') st)
      else
        (case buildDirectory fuel env (cli_options cmd) st of
           (Inr u, st') \<Rightarrow> (Inr 0, st')
         | (Inl (Exit n), st') \<Rightarrow> (Inr n, st')
         | (Inl OutOfFuel, st') \<Rightarrow> (Inl OutOfFuel, st')
         | (Inl e, st') \<Rightarrow> (Inr 1, logged (ConsoleErrorObj e) st')))"

section \<open>A file system to run the driver on\<close>

text \<open>A small instance of the environment: the file system is a list of paths with what
  is stored there, newest first. Paths are joined with a slash (the arguments the examples
  pass are normalised already), a directory is created when its parent is a directory,
  and a pattern matches with \<^verbatim>\<open>*\<close> standing for any characters but the slash. The
  manifest parser and the transformer are arguments.\<close>

datatype node = FileNode string | DirNode

type_synonym disk = "(string \<times> node) list"

definition plain_name :: "string \<Rightarrow> bool" where
  "plain_name c = (c \<noteq> [] \<and> CHR ''/'' \<notin> set c \<and> c \<noteq> ''.'' \<and> c \<noteq> ''..'')"

definition disk_join :: "string list \<Rightarrow> string" where
  "disk_join segs =
     (case filter (\<lambda>s. s \<noteq> []) segs of
        [] \<Rightarrow> ''.''
      | s # ss \<Rightarrow> foldl (\<lambda>acc x. acc @ ''/'' @ x) s ss)"

definition disk_dirname :: "string \<Rightarrow> string" where
  "disk_dirname p =
     (if CHR ''/'' \<notin> set p then ''.''
      else (case rev (dropWhile (\<lambda>c. c \<noteq> CHR ''/'') (rev p)) of
              [] \<Rightarrow> ''.''
            | [c] \<Rightarrow> ''/''
            | d \<Rightarrow> butlast d))"

definition disk_relative :: "string \<Rightarrow> string \<Rightarrow> string" where
  "disk_relative from to =
     (if prefix (from @ ''/'') to then drop (length from + 1) to else to)"

definition disk_exists :: "disk \<Rightarrow> string \<Rightarrow> bool" where
  "disk_exists w p = (map_of w p \<noteq> None)"

definition disk_mkdir :: "disk \<Rightarrow> string \<Rightarrow> error + disk" where
  "disk_mkdir w p =
     (if map_of w p \<noteq> None then Inl (SystemError ''EEXIST'')
      else if map_of w (disk_dirname p) \<noteq> Some DirNode then Inl (SystemError ''ENOENT'')
      else Inr ((p, DirNode) # w))"

definition disk_readdir :: "disk \<Rightarrow> string \<Rightarrow> error + string list" where
  "disk_readdir w d =
     (case map_of w d of
        None \<Rightarrow> Inl (SystemError ''ENOENT'')
      | Some (FileNode content) \<Rightarrow> Inl (SystemError ''ENOTDIR'')
      | Some DirNode \<Rightarrow>
          Inr (filter plain_name
                 (remdups (map (\<lambda>(p, n). drop (length d + 1) p)
                    (filter (\<lambda>(p, n). prefix (d @ ''/'') p) (rev w))))))"

definition disk_isDirectory :: "disk \<Rightarrow> string \<Rightarrow> error + bool" where
  "disk_isDirectory w p =
     (case map_of w p of
        None \<Rightarrow> Inl (SystemError ''ENOENT'')
      | Some n \<Rightarrow> Inr (n = DirNode))"

definition disk_readFile :: "disk \<Rightarrow> string \<Rightarrow> error + string" where
  "disk_readFile w p =
     (case map_of w p of
        None \<Rightarrow> Inl (SystemError ''ENOENT'')
      | Some DirNode \<Rightarrow> Inl (SystemError ''EISDIR'')
      | Some (FileNode content) \<Rightarrow> Inr content)"

definition disk_writeFile :: "disk \<Rightarrow> string \<Rightarrow> string \<Rightarrow> error + disk" where
  "disk_writeFile w p content =
     (if map_of w p = Some DirNode then Inl (SystemError ''EISDIR'')
      else if map_of w (disk_dirname p) \<noteq> Some DirNode then Inl (SystemError ''ENOENT'')
      else Inr ((p, FileNode content) # w))"

fun glob_match :: "string \<Rightarrow> string \<Rightarrow> bool" where
  "glob_match [] s = (s = [])"
| "glob_match (c # cs) [] = (c = CHR ''*'' \<and> glob_match cs [])"
| "glob_match (c # cs) (x # xs) =
     (if c = CHR ''*'' then glob_match cs (x # xs) \<or> (x \<noteq> CHR ''/'' \<and> glob_match (c # cs) xs)
      else x = c \<and> glob_match cs xs)"

definition disk_glob :: "disk \<Rightarrow> string \<Rightarrow> error + string list" where
  "disk_glob w pattern =
     Inr (remdups (map fst
       (filter (\<lambda>(p, n). n \<noteq> DirNode \<and> glob_match pattern p) (rev w))))"

definition disk_env ::
    "(string \<Rightarrow> error + json) \<Rightarrow> (string \<Rightarrow> Options \<Rightarrow> string \<Rightarrow> error + string) \<Rightarrow> disk env" where
  "disk_env parser transformer =
     \<lparr>exists = disk_exists, mkdir = disk_mkdir, readdir = disk_readdir,
      stat_isDirectory = disk_isDirectory, readFile = disk_readFile,
      writeFile = disk_writeFile, glob = disk_glob, join = disk_join,
      dirname = disk_dirname, relative = disk_relative, process_cwd = ''/work'',
      JSON_parse = parser, transform = transformer\<rparr>"

text \<open>A parser that knows one document, and a transformer that rejects one source text.\<close>

definition parse_as :: "json \<Rightarrow> string \<Rightarrow> error + json" where
  "parse_as j s = (if s = ''manifest'' then Inr j else Inl SyntaxError)"

definition mark_transform :: "string \<Rightarrow> Options \<Rightarrow> string \<Rightarrow> error + string" where
  "mark_transform code opts filePath =
     (if code = ''bad'' then Inl (TransformError filePath) else Inr (''js:'' @ code))"

definition start :: "'w \<Rightarrow> 'w state" where
  "start w = \<lparr>world = w, trace = []\<rparr>"

text \<open>A project \<^verbatim>\<open>p\<close> below the working directory \<^verbatim>\<open>/work\<close>, with one file at its top
  and one in \<^verbatim>\<open>lib\<close>. The list is keyed by the path as the driver writes it: the
  manifest is stored under the relative path \<^verbatim>\<open>p/tsconfig.json\<close> that the driver reads,
  the sources under the absolute paths it builds from the working directory.\<close>

definition demo_project_disk :: disk where
  "demo_project_disk =
     [(''/work/p/lib/y.ts'', FileNode ''Y''), (''/work/p/lib'', DirNode),
      (''/work/p/x.ts'', FileNode ''X''), (''/work/p'', DirNode), (''/work'', DirNode),
      (''p/tsconfig.json'', FileNode ''manifest''), (''p'', DirNode), (''.'', DirNode)]"

definition demo_manifest :: json where
  "demo_manifest =
     JObj [(''files'', JArr [JStr ''x.ts'']),
           (''include'', JArr [JStr ''*.ts'', JStr ''lib/*.ts'']),
           (''compilerOptions'', JObj [(''outDir'', JStr ''dist''), (''module'', JStr ''commonjs'')])]"

definition demo_sucrase_options :: "string list \<Rightarrow> Options" where
  "demo_sucrase_options ts =
     \<lparr>transforms = ts, enableLegacyTypeScriptModuleInterop = None,
      enableLegacyBabel5ModuleInterop = None, jsxPragma = ''React.createElement'',
      jsxFragmentPragma = ''React.Fragment'', production = None\<rparr>"

definition demo_project_options :: "string list \<Rightarrow> CLIOptions" where
  "demo_project_options ts =
     \<lparr>outDirPath = None, srcDirPath = None, project = Some ''p'', outExtension = ''js'',
      excludeDirs = [], quiet = None, sucraseOptions = demo_sucrase_options ts\<rparr>"

definition bare_manifest :: json where
  "bare_manifest = JObj [(''files'', JArr [JStr ''x.ts''])]"

definition no_outDir_manifest :: json where
  "no_outDir_manifest = JObj [(''files'', JArr [JStr ''x.ts'']), (''compilerOptions'', JObj [(''module'', JStr ''commonjs'')])]"

definition demo_project_cmd :: "string option \<Rightarrow> commander" where
  "demo_project_cmd out =
     \<lparr>cmd_outDir = out, cmd_project = Some ''p'', cmd_outExtension = ''js'',
      cmd_excludeDirs = None, cmd_transforms = None, cmd_quiet = None,
      cmd_enableLegacyTypescriptModuleInterop = None,
      cmd_enableLegacyBabel5ModuleInterop = None, cmd_jsxPragma = None,
      cmd_jsxFragmentPragma = None, cmd_production = None, cmd_args = []\<rparr>"

text \<open>A source tree \<^verbatim>\<open>src\<close> with a file whose name has two dots, a subdirectory and a
  \<^verbatim>\<open>node_modules\<close> directory.\<close>

definition demo_tree_disk :: disk where
  "demo_tree_disk =
     [(''src/sub/b.ts'', FileNode ''B''), (''src/sub'', DirNode),
      (''src/node_modules/x.ts'', FileNode ''X''), (''src/node_modules'', DirNode),
      (''src/a.b.ts'', FileNode ''A''), (''src'', DirNode), (''.'', DirNode)]"

definition demo_explicit_options :: CLIOptions where
  "demo_explicit_options =
     \<lparr>outDirPath = Some ''out'', srcDirPath = Some ''src'', project = None,
      outExtension = ''js'', excludeDirs = [], quiet = None,
      sucraseOptions = demo_sucrase_options [''typescript'']\<rparr>"

text \<open>Three pairs to build; the transformer rejects the text of the second.\<close>

definition demo_build_disk :: disk where
  "demo_build_disk =
     [(''out'', DirNode), (''src/c.ts'', FileNode ''C''), (''src/b.ts'', FileNode ''bad''),
      (''src/a.ts'', FileNode ''A''), (''src'', DirNode), (''.'', DirNode)]"

definition demo_pairs :: "FileInfo list" where
  "demo_pairs =
     [\<lparr>srcPath = ''src/a.ts'', outPath = ''out/a.js''\<rparr>,
      \<lparr>srcPath = ''src/b.ts'', outPath = ''out/b.js''\<rparr>,
      \<lparr>srcPath = ''src/c.ts'', outPath = ''out/c.js''\<rparr>]"







section \<open>Vocabulary of the properties\<close>

text \<open>The member \<open>k\<close> of a manifest, when the manifest is an object that has one.\<close>

definition member_of :: "json \<Rightarrow> string \<Rightarrow> json option" where
  "member_of j k = (case j of JObj members \<Rightarrow> map_of members k | _ \<Rightarrow> None)"

text \<open>The manifest has no \<^verbatim>\<open>compilerOptions.outDir\<close>: no \<^verbatim>\<open>compilerOptions\<close>, or one
  without the member \<^verbatim>\<open>outDir\<close>.\<close>

definition omits_outDir :: "json \<Rightarrow> bool" where
  "omits_outDir j =
     (case member_of j ''compilerOptions'' of None \<Rightarrow> True | Some c \<Rightarrow> member_of c ''outDir'' = None)"

text \<open>The paths read, transformed and written by a list of calls, in the order of the calls.\<close>

fun read_paths :: "call list \<Rightarrow> string list" where
  "read_paths [] = []"
| "read_paths (ReadFile p # cs) = p # read_paths cs"
| "read_paths (c # cs) = read_paths cs"

fun write_paths :: "call list \<Rightarrow> string list" where
  "write_paths [] = []"
| "write_paths (WriteFile p content # cs) = p # write_paths cs"
| "write_paths (c # cs) = write_paths cs"

fun transform_paths :: "call list \<Rightarrow> string list" where
  "transform_paths [] = []"
| "transform_paths (Transform p # cs) = p # transform_paths cs"
| "transform_paths (c # cs) = transform_paths cs"

text \<open>A name \<^verbatim>\<open>runGlob\<close> keeps: it ends with \<^verbatim>\<open>.ts\<close> or \<^verbatim>\<open>.js\<close> and not with
  \<^verbatim>\<open>.d.ts\<close>. The pair it records for an entry of \<^verbatim>\<open>files\<close> and for a match of a
  pattern.\<close>

definition is_source :: "string \<Rightarrow> bool" where
  "is_source f = (\<not> endsWith f ''.d.ts'' \<and> (endsWith f ''.ts'' \<or> endsWith f ''.js''))"

definition file_pair :: "'w env \<Rightarrow> string \<Rightarrow> string \<Rightarrow> string \<Rightarrow> string \<Rightarrow> FileInfo" where
  "file_pair env absProject outDirP outExt f =
     \<lparr>srcPath = join env [absProject, f],
      outPath = replace_ext (join env [outDirP, f]) outExt\<rparr>"



text \<open>The distinct elements of a list, in the order of their first occurrence.\<close>

definition first_refs :: "'a list \<Rightarrow> 'a list" where
  "first_refs xs = rev (remdups (rev xs))"

text \<open>The directory of each output path.\<close>

definition out_dirs :: "'w env \<Rightarrow> FileInfo list \<Rightarrow> string list" where
  "out_dirs env pairs = map (\<lambda>p. dirname env (outPath p)) pairs"


text \<open>The directories created and looked up by a list of calls, and the calls made before
  the first pattern is expanded.\<close>

fun mkdir_paths :: "call list \<Rightarrow> string list" where
  "mkdir_paths [] = []"
| "mkdir_paths (Mkdir p # cs) = p # mkdir_paths cs"
| "mkdir_paths (c # cs) = mkdir_paths cs"

fun exists_paths :: "call list \<Rightarrow> string list" where
  "exists_paths [] = []"
| "exists_paths (Exists p # cs) = p # exists_paths cs"
| "exists_paths (c # cs) = exists_paths cs"


text \<open>The path reached from a directory through a chain of child names, each joined to
  the path before it as \<^verbatim>\<open>findFiles\<close> joins a child to its directory.\<close>

definition descend :: "'w env \<Rightarrow> string \<Rightarrow> string list \<Rightarrow> string" where
  "descend env base names = foldl (\<lambda>d c. join env [d, c]) base names"







section \<open>Properties\<close>

subsection \<open>Reading the manifest\<close>


lemma read_tsconfig_ok:
  "readFile env (world st) (join env [proj, ''tsconfig.json'']) = Inr str \<Longrightarrow>
   read_tsconfig env proj st = (Inr str, logged (ReadFile (join env [proj, ''tsconfig.json''])) st)"
  by (simp add: read_tsconfig_def call_readFile_def)


lemma get_property_absent:
  "member_of j k = None \<Longrightarrow>
   get_property (Val j) k = Inl TypeError \<or> get_property (Val j) k = Inr Undefined"
  by (cases j) (auto simp: member_of_def)

lemma demo_resolution:
  "updateOptionsFromProject (disk_env (parse_as demo_manifest) mark_transform)
     (demo_project_options []) (start demo_project_disk) =
   (Inr (),
    (demo_project_options [])\<lparr>outDirPath := Some ''/work/p/dist'',
       sucraseOptions := (demo_sucrase_options [''typescript'', ''imports''])
          \<lparr>enableLegacyTypeScriptModuleInterop := Some True\<rparr>\<rparr>,
    logged (ReadFile ''p/tsconfig.json'') (start demo_project_disk))"
  by code_simp

lemma demo_manifest_read:
  "readFile (disk_env (parse_as demo_manifest) mark_transform) (world (start demo_project_disk))
     (join (disk_env (parse_as demo_manifest) mark_transform) [''p'', ''tsconfig.json''])
   = Inr ''manifest''"
  by code_simp

lemma demo_manifest_parsed:
  "JSON_parse (disk_env (parse_as j) mark_transform) ''manifest'' = Inr j"
  by (simp add: disk_env_def parse_as_def)

subsection \<open>The typescript pass after manifest resolution\<close>




subsection \<open>esModuleInterop and the legacy interop flag\<close>

text \<open>
  C4. When \<^verbatim>\<open>updateOptionsFromProject\<close> returns, the flag
  \<^verbatim>\<open>enableLegacyTypeScriptModuleInterop\<close> is what it was if
  \<^verbatim>\<open>compilerOptions.esModuleInterop\<close> is the boolean \<^verbatim>\<open>true\<close>, and \<^verbatim>\<open>true\<close> for every
  other value of that member, its absence included.
\<close>

theorem esModuleInterop_forces_legacy_interop:
  assumes "project options = Some proj"
    and "readFile env (world st) (join env [proj, ''tsconfig.json'']) = Inr str"
    and "JSON_parse env str = Inr json"
    and "get_property (Val json) ''compilerOptions'' = Inr compilerOpts"
    and "get_property compilerOpts ''esModuleInterop'' = Inr esModuleInterop"
    and "updateOptionsFromProject env options st = (Inr (), options', st')"
  shows "enableLegacyTypeScriptModuleInterop (sucraseOptions options') =
         (if esModuleInterop = Val (JBool True)
          then enableLegacyTypeScriptModuleInterop (sucraseOptions options) else Some True)"
  using assms
  by (auto simp: updateOptionsFromProject_def read_tsconfig_ok Let_def
           split: sum.splits if_splits jsval.splits json.splits)

theorem esModuleInterop_forces_legacy_interop_witness:
  "updateOptionsFromProject (disk_env (parse_as demo_manifest) mark_transform)
     (demo_project_options []) (start demo_project_disk) =
   (Inr (),
    (demo_project_options [])\<lparr>outDirPath := Some ''/work/p/dist'',
       sucraseOptions := (demo_sucrase_options [''typescript'', ''imports''])
          \<lparr>enableLegacyTypeScriptModuleInterop := Some True\<rparr>\<rparr>,
    logged (ReadFile ''p/tsconfig.json'') (start demo_project_disk))
   \<and> get_property (Val (JObj [(''outDir'', JStr ''dist''), (''module'', JStr ''commonjs'')]))
        ''esModuleInterop'' = Inr Undefined
   \<and> Undefined \<noteq> Val (JBool True)"
proof -
  have p: "project (demo_project_options []) = Some ''p''"
    by (simp add: demo_project_options_def)
  have c: "get_property (Val demo_manifest) ''compilerOptions'' =
           Inr (Val (JObj [(''outDir'', JStr ''dist''), (''module'', JStr ''commonjs'')]))"
    by (simp add: demo_manifest_def)
  have e: "get_property (Val (JObj [(''outDir'', JStr ''dist''), (''module'', JStr ''commonjs'')]))
        ''esModuleInterop'' = Inr Undefined"
    by simp
  show ?thesis
    using esModuleInterop_forces_legacy_interop
            [OF p demo_manifest_read demo_manifest_parsed c e demo_resolution]
      demo_resolution e
    by simp
qed

subsection \<open>A manifest without compilerOptions\<close>

lemma bare_manifest_read:
  "readFile (disk_env (parse_as bare_manifest) mark_transform) (world (start demo_project_disk))
     (join (disk_env (parse_as bare_manifest) mark_transform) [''p'', ''tsconfig.json''])
   = Inr ''manifest''"
  by code_simp

text \<open>
  C9. In project mode, when the manifest parses and has no member \<^verbatim>\<open>compilerOptions\<close>,
  \<^verbatim>\<open>updateOptionsFromProject\<close> throws a TypeError (it reads \<^verbatim>\<open>outDir\<close> of
  \<^verbatim>\<open>undefined\<close>), and \<^verbatim>\<open>buildDirectory\<close> ends with that error having made one call,
  the read of the manifest: \<^verbatim>\<open>runGlob\<close> never starts.
\<close>

theorem missing_compilerOptions_throws:
  assumes "\<not> (truthy_str (outDirPath options) \<and> truthy_str (srcDirPath options))"
    and "project options = Some proj" and "proj \<noteq> []"
    and "readFile env (world st) (join env [proj, ''tsconfig.json'']) = Inr str"
    and "JSON_parse env str = Inr json"
    and "member_of json ''compilerOptions'' = None"
  shows "fst (updateOptionsFromProject env options st) = Inl TypeError
       \<and> buildDirectory fuel env options st =
           (Inl TypeError, logged (ReadFile (join env [proj, ''tsconfig.json''])) st)"
  using assms get_property_absent [of json "''compilerOptions''"]
  by (auto simp: buildDirectory_def updateOptionsFromProject_def read_tsconfig_ok Let_def)

theorem missing_compilerOptions_throws_witness:
  "buildDirectory 3 (disk_env (parse_as bare_manifest) mark_transform) (demo_project_options [])
     (start demo_project_disk) =
   (Inl TypeError, logged (ReadFile ''p/tsconfig.json'') (start demo_project_disk))
   \<and> member_of bare_manifest ''compilerOptions'' = None"
proof -
  have m: "member_of bare_manifest ''compilerOptions'' = None"
    by (simp add: member_of_def bare_manifest_def)
  have j: "join (disk_env (parse_as bare_manifest) mark_transform) [''p'', ''tsconfig.json''] = ''p/tsconfig.json''"
    by (simp add: disk_env_def disk_join_def)
  have "\<not> (truthy_str (outDirPath (demo_project_options [])) \<and> truthy_str (srcDirPath (demo_project_options [])))"
    and "project (demo_project_options []) = Some ''p''" and "''p'' \<noteq> []"
    by (simp_all add: demo_project_options_def)
  from missing_compilerOptions_throws [OF this bare_manifest_read demo_manifest_parsed m, of 3] m j
  show ?thesis by simp
qed

subsection \<open>The mode buildDirectory selects\<close>

text \<open>
  C8. \<^verbatim>\<open>buildDirectory\<close> runs \<^verbatim>\<open>findFiles\<close> when both the output and the source
  directory are truthy; otherwise, when the project is truthy, it runs
  \<^verbatim>\<open>updateOptionsFromProject\<close> and then \<^verbatim>\<open>runGlob\<close> on the updated options; otherwise it
  prints one line on the error stream and exits with status 1, and that line is its
  only call. In the first two cases the pairs found are built in order.
\<close>

theorem buildDirectory_mode_selection:
  "(truthy_str (outDirPath options) \<and> truthy_str (srcDirPath options) \<longrightarrow>
      buildDirectory fuel env options st =
        and_then (findFiles fuel env options) (buildFiles env options) st)
   \<and> (\<not> (truthy_str (outDirPath options) \<and> truthy_str (srcDirPath options))
        \<and> truthy_str (project options) \<longrightarrow>
      buildDirectory fuel env options st =
        (case updateOptionsFromProject env options st of
           (Inl e, options', st1) \<Rightarrow> (Inl e, st1)
         | (Inr u, options', st1) \<Rightarrow>
             and_then (runGlob env options') (buildFiles env options') st1))
   \<and> (\<not> (truthy_str (outDirPath options) \<and> truthy_str (srcDirPath options))
        \<and> \<not> truthy_str (project options) \<longrightarrow>
      buildDirectory fuel env options st =
        (Inl (Exit 1),
         st\<lparr>trace := trace st @ [ConsoleError ''Project or Source directory required.'']\<rparr>))"
  by (simp add: buildDirectory_def logged_def)

theorem buildDirectory_mode_selection_witness:
  "buildDirectory 5 (disk_env (parse_as JNull) mark_transform) demo_explicit_options
      (start demo_tree_disk) =
     and_then (findFiles 5 (disk_env (parse_as JNull) mark_transform) demo_explicit_options)
       (buildFiles (disk_env (parse_as JNull) mark_transform) demo_explicit_options)
       (start demo_tree_disk)
   \<and> buildDirectory 5 (disk_env (parse_as demo_manifest) mark_transform) (demo_project_options [])
      (start demo_project_disk) =
     and_then (runGlob (disk_env (parse_as demo_manifest) mark_transform)
        ((demo_project_options [])\<lparr>outDirPath := Some ''/work/p/dist'',
           sucraseOptions := (demo_sucrase_options [''typescript'', ''imports''])
             \<lparr>enableLegacyTypeScriptModuleInterop := Some True\<rparr>\<rparr>))
       (buildFiles (disk_env (parse_as demo_manifest) mark_transform)
        ((demo_project_options [])\<lparr>outDirPath := Some ''/work/p/dist'',
           sucraseOptions := (demo_sucrase_options [''typescript'', ''imports''])
             \<lparr>enableLegacyTypeScriptModuleInterop := Some True\<rparr>\<rparr>))
       (logged (ReadFile ''p/tsconfig.json'') (start demo_project_disk))
   \<and> buildDirectory 5 (disk_env (parse_as JNull) mark_transform)
        (demo_explicit_options\<lparr>srcDirPath := None\<rparr>) (start demo_tree_disk) =
       (Inl (Exit 1),
        \<lparr>world = demo_tree_disk,
         trace = [ConsoleError ''Project or Source directory required.'']\<rparr>)"
proof -
  have 1: "truthy_str (outDirPath demo_explicit_options)
           \<and> truthy_str (srcDirPath demo_explicit_options)"
    by (simp add: demo_explicit_options_def)
  have 2: "\<not> (truthy_str (outDirPath (demo_project_options []))
              \<and> truthy_str (srcDirPath (demo_project_options [])))
           \<and> truthy_str (project (demo_project_options []))"
    by (simp add: demo_project_options_def)
  have 3: "\<not> (truthy_str (outDirPath (demo_explicit_options\<lparr>srcDirPath := None\<rparr>))
              \<and> truthy_str (srcDirPath (demo_explicit_options\<lparr>srcDirPath := None\<rparr>)))
           \<and> \<not> truthy_str (project (demo_explicit_options\<lparr>srcDirPath := None\<rparr>))"
    by (simp add: demo_explicit_options_def)
  show ?thesis
    using 1 2 3 demo_resolution
      buildDirectory_mode_selection [of demo_explicit_options 5
        "disk_env (parse_as JNull) mark_transform" "start demo_tree_disk"]
      buildDirectory_mode_selection [of "demo_project_options []" 5
        "disk_env (parse_as demo_manifest) mark_transform" "start demo_project_disk"]
      buildDirectory_mode_selection [of "demo_explicit_options\<lparr>srcDirPath := None\<rparr>" 5
        "disk_env (parse_as JNull) mark_transform" "start demo_tree_disk"]
    by (simp add: start_def)
qed

subsection \<open>The output directory in project mode\<close>

lemma get_property_Val_cases:
  "get_property (Val j) k = Inl TypeError \<and> j = JNull \<or>
   get_property (Val j) k = Inr (case member_of j k of None \<Rightarrow> Undefined | Some v \<Rightarrow> Val v) \<and> j \<noteq> JNull"
  by (cases j) (auto simp: member_of_def)

lemma get_property_not_null: "j \<noteq> JNull \<Longrightarrow> \<exists>v. get_property (Val j) k = Inr v"
  by (cases j) auto

lemma runGlob_no_outDir:
  assumes "project options = Some proj" and "outDirPath options = None"
    and "readFile env (world st) (join env [proj, ''tsconfig.json'']) = Inr str"
    and "JSON_parse env str = Inr json"
  shows "runGlob env options st = (Inl TypeError, logged (ReadFile (join env [proj, ''tsconfig.json''])) st)"
proof (cases "json = JNull")
  case True
  with assms show ?thesis
    by (simp add: runGlob_def and_then_def read_tsconfig_ok of_result_def)
next
  case False
  from get_property_not_null [OF this] obtain f i where
    "get_property (Val json) ''files'' = Inr f" "get_property (Val json) ''include'' = Inr i"
    by blast
  with assms show ?thesis
    by (simp add: runGlob_def and_then_def read_tsconfig_ok of_result_def)
qed

lemma update_no_outDir:
  assumes "project options = Some proj"
    and "readFile env (world st) (join env [proj, ''tsconfig.json'']) = Inr str"
    and "JSON_parse env str = Inr json"
    and "omits_outDir json"
  shows "\<exists>r options'. updateOptionsFromProject env options st =
           (r, options', logged (ReadFile (join env [proj, ''tsconfig.json''])) st)
         \<and> (r = Inl TypeError \<or> r = Inr ())
         \<and> outDirPath options' = outDirPath options \<and> project options' = project options"
proof -
  consider (a) "get_property (Val json) ''compilerOptions'' = Inl TypeError"
    | (b) "get_property (Val json) ''compilerOptions'' = Inr Undefined"
    | (c) c where "get_property (Val json) ''compilerOptions'' = Inr (Val c)" "member_of c ''outDir'' = None"
    using get_property_Val_cases [of json "''compilerOptions''"] assms(4)
    by (auto simp: omits_outDir_def split: option.splits)
  then show ?thesis
  proof cases
    case a
    with assms show ?thesis
      by (simp add: updateOptionsFromProject_def read_tsconfig_ok Let_def)
  next
    case b
    with assms show ?thesis
      by (simp add: updateOptionsFromProject_def read_tsconfig_ok Let_def)
  next
    case c
    show ?thesis
    proof (cases "c = JNull")
      case True
      with c assms show ?thesis
        by (simp add: updateOptionsFromProject_def read_tsconfig_ok Let_def)
    next
      case False
      from get_property_not_null [OF this] obtain e m where
        "get_property (Val c) ''esModuleInterop'' = Inr e" "get_property (Val c) ''module'' = Inr m"
        by blast
      moreover have "get_property (Val c) ''outDir'' = Inr Undefined"
        using get_property_Val_cases [of c "''outDir''"] c(2) False by auto
      ultimately show ?thesis using c assms
        by (simp add: updateOptionsFromProject_def read_tsconfig_ok Let_def)
    qed
  qed
qed


lemma buildDirectory_no_outDir:
  assumes "project options = Some proj" and "proj \<noteq> []" and "outDirPath options = None"
    and "readFile env (world st) (join env [proj, ''tsconfig.json'']) = Inr str"
    and "JSON_parse env str = Inr json"
    and "omits_outDir json"
  shows "\<exists>calls. buildDirectory fuel env options st = (Inl TypeError, st\<lparr>trace := trace st @ calls\<rparr>)
           \<and> (calls = [ReadFile (join env [proj, ''tsconfig.json''])]
              \<or> calls = [ReadFile (join env [proj, ''tsconfig.json'']),
                          ReadFile (join env [proj, ''tsconfig.json''])])"
proof -
  let ?cfg = "join env [proj, ''tsconfig.json'']"
  from update_no_outDir [OF assms(1,4,5,6)] obtain r options' where
    u: "updateOptionsFromProject env options st = (r, options', logged (ReadFile ?cfg) st)"
    and r: "r = Inl TypeError \<or> r = Inr ()"
    and o: "outDirPath options' = None" "project options' = Some proj"
    using assms(1,3) by auto
  from r show ?thesis
  proof
    assume "r = Inl TypeError"
    with u assms(1,2,3) show ?thesis
      by (auto simp: buildDirectory_def logged_def)
  next
    assume ok: "r = Inr ()"
    have "readFile env (world (logged (ReadFile ?cfg) st)) ?cfg = Inr str"
      using assms(4) by (simp add: logged_def)
    from runGlob_no_outDir [OF o(2) o(1) this assms(5)] u ok assms(1,2,3) show ?thesis
      by (auto simp: buildDirectory_def logged_def and_then_def)
  qed
qed

lemma no_outDir_manifest_read:
  "readFile (disk_env (parse_as no_outDir_manifest) mark_transform) (world (start demo_project_disk))
     (join (disk_env (parse_as no_outDir_manifest) mark_transform) [''p'', ''tsconfig.json''])
   = Inr ''manifest''"
  by code_simp

text \<open>
  C10. With \<^verbatim>\<open>--project\<close> given, \<open>run\<close> refuses an out directory: it prints the
  message and exits with status 1. With no out directory on the command line and a
  manifest that parses and has no \<^verbatim>\<open>compilerOptions.outDir\<close>, resolution leaves
  \<^verbatim>\<open>outDirPath\<close> undefined and the run ends with status 1 after printing a TypeError: its
  only calls are one or two reads of the manifest, so no pair is found, no directory is
  looked up or created and nothing is written anywhere.
\<close>

theorem project_mode_outDir_only_from_manifest:
  assumes "cmd_project cmd = Some proj" and "proj \<noteq> []"
  shows "(truthy_str (cmd_outDir cmd) \<longrightarrow>
           run fuel env cmd st =
             (Inr 1, logged (ConsoleError
                (''If TypeScript project is specified, out directory, transforms, source '' @
                 ''directory, and --enable-legacy-typescript-module-interop may not be specified.''))
                st))
       \<and> (cmd_outDir cmd = None \<and> \<not> truthy_str (cmd_transforms cmd)
            \<and> \<not> truthy_str (srcDirPath (cli_options cmd))
            \<and> cmd_enableLegacyTypescriptModuleInterop cmd \<noteq> Some True
            \<and> readFile env (world st) (join env [proj, ''tsconfig.json'']) = Inr str
            \<and> JSON_parse env str = Inr json \<and> omits_outDir json \<longrightarrow>
           outDirPath (fst (snd (updateOptionsFromProject env (cli_options cmd) st))) = None
           \<and> (\<exists>calls. run fuel env cmd st =
                  (Inr 1, st\<lparr>trace := trace st @ calls @ [ConsoleErrorObj TypeError]\<rparr>)
                \<and> (calls = [ReadFile (join env [proj, ''tsconfig.json''])]
                   \<or> calls = [ReadFile (join env [proj, ''tsconfig.json'']),
                               ReadFile (join env [proj, ''tsconfig.json''])])))"
proof (intro conjI impI)
  assume "truthy_str (cmd_outDir cmd)"
  with assms show "run fuel env cmd st =
             (Inr 1, logged (ConsoleError
                (''If TypeScript project is specified, out directory, transforms, source '' @
                 ''directory, and --enable-legacy-typescript-module-interop may not be specified.''))
                st)"
    by (simp add: run_def)
next
  assume h: "cmd_outDir cmd = None \<and> \<not> truthy_str (cmd_transforms cmd)
            \<and> \<not> truthy_str (srcDirPath (cli_options cmd))
            \<and> cmd_enableLegacyTypescriptModuleInterop cmd \<noteq> Some True
            \<and> readFile env (world st) (join env [proj, ''tsconfig.json'']) = Inr str
            \<and> JSON_parse env str = Inr json \<and> omits_outDir json"
  have p: "project (cli_options cmd) = Some proj" "outDirPath (cli_options cmd) = None"
    using assms h by (simp_all add: cli_options_def)
  from update_no_outDir [OF p(1), of env st str json] h p
  show "outDirPath (fst (snd (updateOptionsFromProject env (cli_options cmd) st))) = None"
    by auto
  from buildDirectory_no_outDir [OF p(1) assms(2) p(2), of env st str json fuel] h
  obtain calls where
    b: "buildDirectory fuel env (cli_options cmd) st = (Inl TypeError, st\<lparr>trace := trace st @ calls\<rparr>)"
    and c: "calls = [ReadFile (join env [proj, ''tsconfig.json''])]
              \<or> calls = [ReadFile (join env [proj, ''tsconfig.json'']),
                          ReadFile (join env [proj, ''tsconfig.json''])]"
    by blast
  have a0: "\<not> truthy_str (case cmd_args cmd of [] \<Rightarrow> None | a # x \<Rightarrow> Some a)"
    using h by (simp add: cli_options_def)
  have "run fuel env cmd st = (Inr 1, st\<lparr>trace := trace st @ calls @ [ConsoleErrorObj TypeError]\<rparr>)"
    using assms h b a0 by (simp add: run_def logged_def)
  with c show "\<exists>calls. run fuel env cmd st =
                  (Inr 1, st\<lparr>trace := trace st @ calls @ [ConsoleErrorObj TypeError]\<rparr>)
                \<and> (calls = [ReadFile (join env [proj, ''tsconfig.json''])]
                   \<or> calls = [ReadFile (join env [proj, ''tsconfig.json'']),
                               ReadFile (join env [proj, ''tsconfig.json''])])"
    by blast
qed

theorem project_mode_outDir_only_from_manifest_witness:
  "run 3 (disk_env (parse_as no_outDir_manifest) mark_transform) (demo_project_cmd (Some ''out''))
     (start demo_project_disk) =
   (Inr 1, logged (ConsoleError
                (''If TypeScript project is specified, out directory, transforms, source '' @
                 ''directory, and --enable-legacy-typescript-module-interop may not be specified.''))
                (start demo_project_disk))
   \<and> run 3 (disk_env (parse_as no_outDir_manifest) mark_transform) (demo_project_cmd None)
     (start demo_project_disk) =
     (Inr 1, \<lparr>world = demo_project_disk,
              trace = [ReadFile ''p/tsconfig.json'', ReadFile ''p/tsconfig.json'',
                       ConsoleErrorObj TypeError]\<rparr>)
   \<and> omits_outDir no_outDir_manifest"
proof -
  let ?env = "disk_env (parse_as no_outDir_manifest) mark_transform"
  have o: "omits_outDir no_outDir_manifest"
    by (simp add: omits_outDir_def no_outDir_manifest_def member_of_def)
  have 1: "cmd_project (demo_project_cmd out) = Some ''p''" "''p'' \<noteq> []" for out
    by (simp_all add: demo_project_cmd_def)
  have 2: "truthy_str (cmd_outDir (demo_project_cmd (Some ''out'')))"
    by (simp add: demo_project_cmd_def)
  have 3: "cmd_outDir (demo_project_cmd None) = None \<and> \<not> truthy_str (cmd_transforms (demo_project_cmd None))
            \<and> \<not> truthy_str (srcDirPath (cli_options (demo_project_cmd None)))
            \<and> cmd_enableLegacyTypescriptModuleInterop (demo_project_cmd None) \<noteq> Some True"
    by (simp add: demo_project_cmd_def cli_options_def)
  have r: "run 3 ?env (demo_project_cmd None) (start demo_project_disk) =
     (Inr 1, \<lparr>world = demo_project_disk,
              trace = [ReadFile ''p/tsconfig.json'', ReadFile ''p/tsconfig.json'',
                       ConsoleErrorObj TypeError]\<rparr>)"
    by code_simp
  from project_mode_outDir_only_from_manifest
         [OF 1, where out1 = "Some ''out''" and fuel = 3 and env = ?env
            and st = "start demo_project_disk"] 2
    project_mode_outDir_only_from_manifest
         [OF 1, where out1 = None and fuel = 3 and env = ?env and st = "start demo_project_disk"
            and str = "''manifest''" and json = no_outDir_manifest]
    3 no_outDir_manifest_read demo_manifest_parsed [of no_outDir_manifest] o r
  show ?thesis by simp
qed

subsection \<open>The loop over the file pairs\<close>

lemma read_paths_append [simp]: "read_paths (xs @ ys) = read_paths xs @ read_paths ys"
  by (induction xs rule: read_paths.induct) auto

lemma write_paths_append [simp]: "write_paths (xs @ ys) = write_paths xs @ write_paths ys"
  by (induction xs rule: write_paths.induct) auto

lemma transform_paths_append [simp]:
  "transform_paths (xs @ ys) = transform_paths xs @ transform_paths ys"
  by (induction xs rule: transform_paths.induct) auto

lemma buildFile_calls:
  assumes "buildFile env src out options st = (r, st')"
  shows "\<exists>calls. trace st' = trace st @ calls \<and> read_paths calls = [src]
           \<and> (case r of
                 Inr u \<Rightarrow> transform_paths calls = [src] \<and> write_paths calls = [out]
               | Inl e \<Rightarrow> world st' = world st \<and> (write_paths calls = [] \<or> write_paths calls = [out]))"
  using assms
  by (auto simp: buildFile_def and_then_def call_readFile_def call_transform_def
        call_writeFile_def logged_def split: sum.splits if_splits prod.splits)

lemma demo_build_fails:
  "buildFiles (disk_env (parse_as JNull) mark_transform) demo_explicit_options demo_pairs
     (start demo_build_disk) =
   (Inl (TransformError ''src/b.ts''),
    \<lparr>world = (''out/a.js'', FileNode ''js:A'') # demo_build_disk,
     trace = [ConsoleLog ''src/a.ts -> out/a.js'', ReadFile ''src/a.ts'', Transform ''src/a.ts'',
              WriteFile ''out/a.js'' ''js:A'', ConsoleLog ''src/b.ts -> out/b.js'',
              ReadFile ''src/b.ts'', Transform ''src/b.ts'']\<rparr>)"
  by code_simp

text \<open>
  C1. The loop of \<^verbatim>\<open>buildDirectory\<close> builds the pairs in the order of the list. When it
  returns, every source was read, transformed and written, in that order. When it fails,
  it fails in the build of some pair \<open>n\<close>: the pairs before \<open>n\<close> were built and the loop
  over them returned; the state the loop ends in is the one the failing
  \<^verbatim>\<open>buildFile\<close> left, with the file system as the first \<open>n\<close> builds made it; the
  sources read are those of the pairs up to \<open>n\<close>, and the outputs written those of the pairs
  before \<open>n\<close> (and that of \<open>n\<close> itself when the failure is its write). No pair after
  \<open>n\<close> is read or written.
\<close>

theorem build_loop_stops_at_first_failure:
  assumes "buildFiles env options files st = (r, st')"
  shows "\<exists>calls. trace st' = trace st @ calls \<and>
           (case r of
              Inr u \<Rightarrow>
                read_paths calls = map srcPath files
                \<and> transform_paths calls = map srcPath files
                \<and> write_paths calls = map outPath files
            | Inl e \<Rightarrow>
                (\<exists>n st_n. n < length files
                   \<and> buildFiles env options (take n files) st = (Inr (), st_n)
                   \<and> buildFile env (srcPath (files ! n)) (outPath (files ! n)) options st_n
                       = (Inl e, st')
                   \<and> world st' = world st_n
                   \<and> read_paths calls = map srcPath (take (Suc n) files)
                   \<and> (write_paths calls = map outPath (take n files)
                      \<or> write_paths calls = map outPath (take (Suc n) files))))"
  using assms
proof (induction files arbitrary: st)
  case Nil
  then show ?case by auto
next
  case (Cons f rest)
  obtain r1 st1 where b: "buildFile env (srcPath f) (outPath f) options st = (r1, st1)"
    by (cases "buildFile env (srcPath f) (outPath f) options st") auto
  from buildFile_calls [OF b] obtain c1 where
    c1: "trace st1 = trace st @ c1" "read_paths c1 = [srcPath f]"
    and k: "case r1 of
                 Inr u \<Rightarrow> transform_paths c1 = [srcPath f] \<and> write_paths c1 = [outPath f]
               | Inl e \<Rightarrow> world st1 = world st \<and> (write_paths c1 = [] \<or> write_paths c1 = [outPath f])"
    by blast
  show ?case
  proof (cases r1)
    case (Inl e)
    with b Cons.prems have eq: "r = Inl e" "st' = st1"
      by (auto simp: and_then_def)
    have "buildFiles env options (take 0 (f # rest)) st = (Inr (), st)" by simp
    with eq b Inl c1 k show ?thesis
      by (intro exI [of _ c1]) (auto intro!: exI [of _ 0] exI [of _ st])
  next
    case (Inr u)
    with b Cons.prems have rest: "buildFiles env options rest st1 = (r, st')"
      by (auto simp: and_then_def)
    from Cons.IH [OF rest] obtain c2 where
      c2: "trace st' = trace st1 @ c2"
      and k2: "case r of
              Inr u \<Rightarrow>
                read_paths c2 = map srcPath rest
                \<and> transform_paths c2 = map srcPath rest
                \<and> write_paths c2 = map outPath rest
            | Inl e \<Rightarrow>
                (\<exists>n st_n. n < length rest
                   \<and> buildFiles env options (take n rest) st1 = (Inr (), st_n)
                   \<and> buildFile env (srcPath (rest ! n)) (outPath (rest ! n)) options st_n
                       = (Inl e, st')
                   \<and> world st' = world st_n
                   \<and> read_paths c2 = map srcPath (take (Suc n) rest)
                   \<and> (write_paths c2 = map outPath (take n rest)
                      \<or> write_paths c2 = map outPath (take (Suc n) rest)))"
      by blast
    have t: "trace st' = trace st @ (c1 @ c2)" using c1 c2 by simp
    show ?thesis
    proof (cases r)
      case (Inr v)
      with k2 k \<open>r1 = Inr u\<close> c1 t show ?thesis
        by (intro exI [of _ "c1 @ c2"]) auto
    next
      case (Inl e)
      with k2 obtain n st_n where n: "n < length rest"
        "buildFiles env options (take n rest) st1 = (Inr (), st_n)"
        "buildFile env (srcPath (rest ! n)) (outPath (rest ! n)) options st_n = (Inl e, st')"
        "world st' = world st_n"
        "read_paths c2 = map srcPath (take (Suc n) rest)"
        "write_paths c2 = map outPath (take n rest)
                      \<or> write_paths c2 = map outPath (take (Suc n) rest)"
        by auto
      have p: "buildFiles env options (take (Suc n) (f # rest)) st = (Inr (), st_n)"
        using b \<open>r1 = Inr u\<close> n(2) by (simp add: and_then_def)
      from n p Inl k \<open>r1 = Inr u\<close> c1 t show ?thesis
        by (intro exI [of _ "c1 @ c2"]) (auto intro!: exI [of _ "Suc n"] exI [of _ st_n])
    qed
  qed
qed


theorem build_loop_stops_at_first_failure_witness:
  "buildFiles (disk_env (parse_as JNull) mark_transform) demo_explicit_options demo_pairs
     (start demo_build_disk) =
   (Inl (TransformError ''src/b.ts''),
    \<lparr>world = (''out/a.js'', FileNode ''js:A'') # demo_build_disk,
     trace = [ConsoleLog ''src/a.ts -> out/a.js'', ReadFile ''src/a.ts'', Transform ''src/a.ts'',
              WriteFile ''out/a.js'' ''js:A'', ConsoleLog ''src/b.ts -> out/b.js'',
              ReadFile ''src/b.ts'', Transform ''src/b.ts'']\<rparr>)
   \<and> (\<exists>calls n. n < length demo_pairs
         \<and> [ConsoleLog ''src/a.ts -> out/a.js'', ReadFile ''src/a.ts'', Transform ''src/a.ts'',
              WriteFile ''out/a.js'' ''js:A'', ConsoleLog ''src/b.ts -> out/b.js'',
              ReadFile ''src/b.ts'', Transform ''src/b.ts''] = calls
         \<and> read_paths calls = map srcPath (take (Suc n) demo_pairs))"
  using build_loop_stops_at_first_failure [OF demo_build_fails] demo_build_fails
  by (auto simp: start_def)

subsection \<open>The pairs and the directories of runGlob\<close>

lemma mkdir_paths_append [simp]: "mkdir_paths (xs @ ys) = mkdir_paths xs @ mkdir_paths ys"
  by (induction xs rule: mkdir_paths.induct) auto

lemma exists_paths_append [simp]: "exists_paths (xs @ ys) = exists_paths xs @ exists_paths ys"
  by (induction xs rule: exists_paths.induct) auto



lemma foldl_push_append:
  "foldl (\<lambda>ds d. push_if_missing d ds) acc (xs @ ys) =
   foldl (\<lambda>ds d. push_if_missing d ds) (foldl (\<lambda>ds d. push_if_missing d ds) acc xs) ys"
  by simp

lemma out_dirs_simps [simp]:
  "out_dirs env [] = []"
  "out_dirs env (x # xs) = dirname env (outPath x) # out_dirs env xs"
  "out_dirs env (xs @ ys) = out_dirs env xs @ out_dirs env ys"
  by (simp_all add: out_dirs_def)

lemma runGlob_files_result:
  "runGlob_files env a o' e items (ds, found) = Inr (ds', found') \<Longrightarrow>
   \<exists>fs. items = map JStr fs
      \<and> found' = found @ map (file_pair env a o' e) (filter is_source fs)
      \<and> ds' = foldl (\<lambda>ds d. push_if_missing d ds) ds
                (out_dirs env (map (file_pair env a o' e) (filter is_source fs)))"
proof (induction items arbitrary: ds found)
  case Nil
  then show ?case by simp
next
  case (Cons x items)
  from Cons.prems obtain f where x: "x = JStr f"
    by (cases x) auto
  show ?case
  proof (cases "is_source f")
    case True
    with Cons.prems x have
      "runGlob_files env a o' e items
         (push_if_missing (dirname env (outPath (file_pair env a o' e f))) ds,
          found @ [file_pair env a o' e f]) = Inr (ds', found')"
      by (auto simp: is_source_def file_pair_def Let_def split: if_splits)
    from Cons.IH [OF this] obtain fs where
      "items = map JStr fs"
      "found' = (found @ [file_pair env a o' e f]) @ map (file_pair env a o' e) (filter is_source fs)"
      "ds' = foldl (\<lambda>ds d. push_if_missing d ds)
               (push_if_missing (dirname env (outPath (file_pair env a o' e f))) ds)
                (out_dirs env (map (file_pair env a o' e) (filter is_source fs)))"
      by blast
    with x True show ?thesis
      by (intro exI [of _ "f # fs"]) simp
  next
    case False
    with Cons.prems x have
      "runGlob_files env a o' e items (ds, found) = Inr (ds', found')"
      by (auto simp: is_source_def split: if_splits)
    from Cons.IH [OF this] obtain fs where
      "items = map JStr fs"
      "found' = found @ map (file_pair env a o' e) (filter is_source fs)"
      "ds' = foldl (\<lambda>ds d. push_if_missing d ds) ds
                (out_dirs env (map (file_pair env a o' e) (filter is_source fs)))"
      by blast
    with x False show ?thesis
      by (intro exI [of _ "f # fs"]) simp
  qed
qed








lemma loop_items_strings:
  "runGlob_files env a o' e items acc = Inr acc' \<Longrightarrow> \<exists>fs. items = map JStr fs"
  by (cases acc, cases acc') (auto dest: runGlob_files_result)








lemma first_refs_set [simp]: "set (first_refs xs) = set xs"
  by (simp add: first_refs_def)

lemma first_refs_distinct [simp]: "distinct (first_refs xs)"
  by (simp add: first_refs_def)








subsection \<open>The walk of findFiles\<close>

lemma descend_Nil [simp]: "descend env base [] = base"
  by (simp add: descend_def)

lemma descend_Cons [simp]: "descend env base (c # cs) = descend env (join env [base, c]) cs"
  by (simp add: descend_def)

lemma descend_snoc [simp]: "descend env base (cs @ [c]) = join env [descend env base cs, c]"
  by (simp add: descend_def)





















subsection \<open>The output path of a discovered pair\<close>

lemma dot_not_word_char [simp]: "\<not> word_char CHR ''.''"
  by (simp add: word_char_def)








end
